theory Spec2Isabelle
  imports Main
begin

section \<open>AccountView: the account panel of the webview\<close>

text \<open>
  A shallow embedding of \<^verbatim>\<open>webview-ui/src/components/account/AccountView.tsx\<close>.
  The component is a React function component. Its observable behaviour has three parts:
  the element tree it returns, the telemetry events it captures and the messages it posts
  to the extension host. Captured events and posted messages are recorded, in order, as a
  list of effects; the one mutable cell of the component (a \<^verbatim>\<open>useRef\<close>) is a field
  of an explicit instance state.
\<close>

subsection \<open>Values of the host language\<close>

text \<open>
  A JavaScript value of type \<^verbatim>\<open>string | undefined\<close> is a \<open>string option\<close>, with
  \<open>None\<close> for \<^verbatim>\<open>undefined\<close>. A string is a list of code units. The only falsy
  values of that type are \<^verbatim>\<open>undefined\<close> and the empty string.
\<close>

definition truthy :: "string option \<Rightarrow> bool" where
  "truthy v = (case v of None \<Rightarrow> False | Some s \<Rightarrow> s \<noteq> [])"

text \<open>\<^verbatim>\<open>a || b\<close> on two optional strings: the left operand when it is truthy.\<close>

definition jsOr :: "string option \<Rightarrow> string option \<Rightarrow> string option" where
  "jsOr a b = (if truthy a then a else b)"

text \<open>\<^verbatim>\<open>a || "literal"\<close>: the result is always a string.\<close>

definition orDefault :: "string option \<Rightarrow> string \<Rightarrow> string" where
  "orDefault a d = (case a of None \<Rightarrow> d | Some s \<Rightarrow> if s \<noteq> [] then s else d)"

text \<open>\<^verbatim>\<open>s?.charAt(0)\<close>: the first code unit, the empty string when there is none.\<close>

definition charAt0 :: "string option \<Rightarrow> string option" where
  "charAt0 v = map_option (take 1) v"

text \<open>\<^verbatim>\<open>x + "literal"\<close> where \<^verbatim>\<open>x\<close> may be undefined.\<close>

definition jsConcat :: "string option \<Rightarrow> string \<Rightarrow> string" where
  "jsConcat v s = (case v of None \<Rightarrow> ''undefined'' | Some b \<Rightarrow> b) @ s"

text \<open>An optional string as the text child of an element: undefined renders nothing.\<close>

definition jsText :: "string option \<Rightarrow> string" where
  "jsText v = (case v of None \<Rightarrow> [] | Some s \<Rightarrow> s)"

datatype jsError = TypeError

definition bindE :: "'e + 'a \<Rightarrow> ('a \<Rightarrow> 'e + 'b) \<Rightarrow> 'e + 'b" where
  "bindE m f = (case m of Inl e \<Rightarrow> Inl e | Inr x \<Rightarrow> f x)"

subsection \<open>Props, telemetry events, host messages\<close>

text \<open>
  Modelled from the spec: the type \<^verbatim>\<open>CloudUserInfo\<close> of \<^verbatim>\<open>@roo-code/types\<close> is
  not part of the sources. The spec lists its fields (display name, email, picture URL,
  organization name, organization image URL), each independently optional; these are also
  exactly the fields the component reads.
\<close>

record cloudUserInfo =
  name :: "string option"
  email :: "string option"
  picture :: "string option"
  organizationName :: "string option"
  organizationImageUrl :: "string option"

text \<open>
  \<^verbatim>\<open>AccountViewProps\<close>. The callback \<^verbatim>\<open>onDone\<close> is opaque to the component:
  it is only handed to the done button, and calling it is recorded as an effect.
\<close>

record accountViewProps =
  userInfo :: "cloudUserInfo option"
  isAuthenticated :: bool
  cloudApiUrl :: "string option"

text \<open>
  Modelled from the spec: the enum \<^verbatim>\<open>TelemetryEventName\<close> of \<^verbatim>\<open>@roo-code/types\<close>
  is not part of the sources. These are the three members the component uses, which the
  spec names connect-clicked, logout-clicked and logout-succeeded.
\<close>

datatype telemetryEventName =
  ACCOUNT_CONNECT_CLICKED | ACCOUNT_LOGOUT_CLICKED | ACCOUNT_LOGOUT_SUCCESS

text \<open>The object handed to \<^verbatim>\<open>vscode.postMessage\<close>: a type tag and an optional url.\<close>

record webviewMessage =
  msgType :: string
  url :: "string option"

datatype effect =
  Capture telemetryEventName
  | PostMessage webviewMessage
  | CallOnDone

subsection \<open>The instance state and the effect that tracks authentication\<close>

text \<open>
  \<open>wasAuthenticatedRef\<close> is the \<^verbatim>\<open>current\<close> field of the ref created by
  \<^verbatim>\<open>useRef(false)\<close>. \<open>effectDeps\<close> is the dependency array \<^verbatim>\<open>[isAuthenticated]\<close>
  that React keeps from the last run of the effect: \<open>None\<close> until the first commit.
\<close>

record viewInstance =
  wasAuthenticatedRef :: bool
  effectDeps :: "bool option"

definition mountInstance :: viewInstance where
  "mountInstance = \<lparr>wasAuthenticatedRef = False, effectDeps = None\<rparr>"

text \<open>The callback passed to \<^verbatim>\<open>useEffect\<close>: takes the cell, returns it with the events.\<close>

definition authEffect :: "bool \<Rightarrow> bool \<Rightarrow> bool \<times> effect list" where
  "authEffect isAuth wasAuth =
     (if isAuth then (True, [])
      else if wasAuth \<and> \<not> isAuth then (False, [Capture ACCOUNT_LOGOUT_SUCCESS])
      else (wasAuth, []))"

text \<open>
  \<^verbatim>\<open>useEffect(callback, [isAuthenticated])\<close>: React runs the callback after the first
  commit and after every commit whose dependency differs from the remembered one.
\<close>

definition useEffectAuth :: "bool \<Rightarrow> viewInstance \<Rightarrow> viewInstance \<times> effect list" where
  "useEffectAuth isAuth inst =
     (if effectDeps inst = Some isAuth then (inst, [])
      else (case authEffect isAuth (wasAuthenticatedRef inst) of
              (w, evs) \<Rightarrow> (\<lparr>wasAuthenticatedRef = w, effectDeps = Some isAuth\<rparr>, evs)))"

subsection \<open>The click handlers\<close>

definition handleConnectClick :: "effect list" where
  "handleConnectClick =
     [Capture ACCOUNT_CONNECT_CLICKED,
      PostMessage \<lparr>msgType = ''rooCloudSignIn'', url = None\<rparr>]"

definition handleLogoutClick :: "effect list" where
  "handleLogoutClick =
     [Capture ACCOUNT_LOGOUT_CLICKED,
      PostMessage \<lparr>msgType = ''rooCloudSignOut'', url = None\<rparr>]"

definition handleVisitCloudWebsite :: "string option \<Rightarrow> effect list" where
  "handleVisitCloudWebsite apiUrl =
     (let cloudUrl = orDefault apiUrl ''https://app.roocode.com''
      in [Capture ACCOUNT_CONNECT_CLICKED,
          PostMessage \<lparr>msgType = ''openExternal'', url = Some cloudUrl\<rparr>])"

text \<open>
  The handlers a button of the view can carry. A click runs the handler of the render that
  produced the button, so the handler sees that render's props; none of the handlers
  reads or writes the instance state.
\<close>

datatype handler = OnDone | HandleConnectClick | HandleLogoutClick | HandleVisitCloudWebsite

fun click :: "handler \<Rightarrow> accountViewProps \<Rightarrow> viewInstance \<Rightarrow> viewInstance \<times> effect list" where
  "click OnDone p inst = (inst, [CallOnDone])"
| "click HandleConnectClick p inst = (inst, handleConnectClick)"
| "click HandleLogoutClick p inst = (inst, handleLogoutClick)"
| "click HandleVisitCloudWebsite p inst = (inst, handleVisitCloudWebsite (cloudApiUrl p))"

subsection \<open>The element tree\<close>

text \<open>
  The tree the component returns, with the structure of the JSX: a header (title and
  done button) and one of two bodies. Class names and styles are left out. An attribute
  that the source fills from an optional field keeps the type \<open>string option\<close>.
\<close>

record button =
  appearance :: string
  onClick :: handler
  label :: string

datatype avatar =
  ProfileImg "string option" string
  | Initials string

record organizationBlock =
  orgImg :: "(string option \<times> string option) option"
  orgSpan :: string

record profileBlock =
  profileAvatar :: avatar
  nameHeading :: "string option"
  emailLine :: "string option"
  organization :: "organizationBlock option"

datatype viewBody =
  AuthenticatedBody "profileBlock option" "button list"
  | UnauthenticatedBody string string string "string list" "button list"

record accountViewTree =
  heading :: string
  doneButton :: button
  body :: viewBody

text \<open>
  Property access on \<^verbatim>\<open>userInfo\<close>, which may be null: \<^verbatim>\<open>userInfo.f\<close> throws a
  TypeError on null, \<^verbatim>\<open>userInfo?.f\<close> yields undefined.
\<close>

definition getProp :: "cloudUserInfo option \<Rightarrow> (cloudUserInfo \<Rightarrow> 'a) \<Rightarrow> jsError + 'a" where
  "getProp ui f = (case ui of None \<Rightarrow> Inl TypeError | Some u \<Rightarrow> Inr (f u))"

definition optProp :: "cloudUserInfo option \<Rightarrow> (cloudUserInfo \<Rightarrow> 'a option) \<Rightarrow> 'a option" where
  "optProp ui f = (case ui of None \<Rightarrow> None | Some u \<Rightarrow> f u)"

text \<open>The profile picture container: the picture, or the initial of the name or email.\<close>

definition renderAvatar :: "(string \<Rightarrow> string) \<Rightarrow> cloudUserInfo option \<Rightarrow> jsError + avatar" where
  "renderAvatar t ui =
     (if truthy (optProp ui picture)
      then bindE (getProp ui picture) (\<lambda>src. Inr (ProfileImg src (t ''account:profilePicture'')))
      else Inr (Initials
             (orDefault (jsOr (charAt0 (optProp ui name)) (charAt0 (optProp ui email))) ''?'')))"

definition renderName :: "cloudUserInfo option \<Rightarrow> jsError + string option" where
  "renderName ui =
     bindE (getProp ui name) (\<lambda>n.
       if truthy n then bindE (getProp ui name) (\<lambda>n'. Inr (Some (jsText n'))) else Inr None)"

definition renderEmail :: "cloudUserInfo option \<Rightarrow> string option" where
  "renderEmail ui =
     (if truthy (optProp ui email) then Some (jsText (optProp ui email)) else None)"

definition renderOrganization :: "cloudUserInfo option \<Rightarrow> jsError + organizationBlock option" where
  "renderOrganization ui =
     (if truthy (optProp ui organizationName)
      then
        bindE (getProp ui organizationImageUrl) (\<lambda>imgUrl.
        bindE (if truthy imgUrl
               then bindE (getProp ui organizationImageUrl) (\<lambda>src.
                    bindE (getProp ui organizationName) (\<lambda>alt. Inr (Some (src, alt))))
               else Inr None) (\<lambda>img.
        bindE (getProp ui organizationName) (\<lambda>n.
          Inr (Some \<lparr>orgImg = img, orgSpan = jsText n\<rparr>))))
      else Inr None)"

definition renderProfile :: "(string \<Rightarrow> string) \<Rightarrow> cloudUserInfo option \<Rightarrow> jsError + profileBlock" where
  "renderProfile t ui =
     bindE (renderAvatar t ui) (\<lambda>a.
     bindE (renderName ui) (\<lambda>h.
     bindE (renderOrganization ui) (\<lambda>org.
       Inr \<lparr>profileAvatar = a, nameHeading = h, emailLine = renderEmail ui,
            organization = org\<rparr>)))"

text \<open>
  The value the component function returns. \<open>t\<close> is the translation function of
  \<^verbatim>\<open>useAppTranslation\<close>, \<open>base\<close> the global \<^verbatim>\<open>IMAGES_BASE_URI\<close> of the window.
  \<^verbatim>\<open>userInfo && (...)\<close> renders nothing when \<^verbatim>\<open>userInfo\<close> is null.
\<close>

definition render ::
  "(string \<Rightarrow> string) \<Rightarrow> string option \<Rightarrow> accountViewProps \<Rightarrow> jsError + accountViewTree" where
  "render t base p =
     (let rooLogoUri = jsConcat base ''/roo-logo.svg'' in
      bindE
        (if isAuthenticated p
         then
           bindE (case userInfo p of
                    None \<Rightarrow> Inr None
                  | Some _ \<Rightarrow> bindE (renderProfile t (userInfo p)) (\<lambda>b. Inr (Some b)))
             (\<lambda>profile. Inr (AuthenticatedBody profile
                [\<lparr>appearance = ''secondary'', onClick = HandleVisitCloudWebsite,
                  label = t ''account:visitCloudWebsite''\<rparr>,
                 \<lparr>appearance = ''secondary'', onClick = HandleLogoutClick,
                  label = t ''account:logOut''\<rparr>]))
         else
           Inr (UnauthenticatedBody rooLogoUri
                  (t ''account:cloudBenefitsTitle'')
                  (t ''account:cloudBenefitsSubtitle'')
                  [t ''account:cloudBenefitHistory'', t ''account:cloudBenefitSharing'',
                   t ''account:cloudBenefitMetrics'']
                  [\<lparr>appearance = ''primary'', onClick = HandleConnectClick,
                    label = t ''account:connect''\<rparr>]))
        (\<lambda>b. Inr \<lparr>heading = t ''account:title'',
                   doneButton = \<lparr>appearance = ''primary'', onClick = OnDone,
                                 label = t ''settings:common.done''\<rparr>,
                   body = b\<rparr>))"

text \<open>The two render modes, read off the branch of the conditional that built the body.\<close>

datatype renderMode = SignedOut | SignedIn

fun modeOf :: "viewBody \<Rightarrow> renderMode" where
  "modeOf (AuthenticatedBody profile buttons) = SignedIn"
| "modeOf (UnauthenticatedBody logo title subtitle benefits buttons) = SignedOut"

fun profileOf :: "viewBody \<Rightarrow> profileBlock option" where
  "profileOf (AuthenticatedBody profile buttons) = profile"
| "profileOf (UnauthenticatedBody logo title subtitle benefits buttons) = None"

fun buttonsOf :: "viewBody \<Rightarrow> button list" where
  "buttonsOf (AuthenticatedBody profile buttons) = buttons"
| "buttonsOf (UnauthenticatedBody logo title subtitle benefits buttons) = buttons"

subsection \<open>One instance over its renders\<close>

text \<open>
  One render pass: the component function returns the tree, React commits it and then
  runs the effect. A render that throws commits nothing and runs no effect.
\<close>

definition renderPass ::
  "(string \<Rightarrow> string) \<Rightarrow> string option \<Rightarrow> accountViewProps \<Rightarrow> viewInstance
     \<Rightarrow> jsError + (accountViewTree \<times> viewInstance \<times> effect list)" where
  "renderPass t base p inst =
     bindE (render t base p) (\<lambda>v.
       case useEffectAuth (isAuthenticated p) inst of (inst', evs) \<Rightarrow> Inr (v, inst', evs))"

text \<open>
  The renders of one instance, in order, starting from a given state: the effects of each
  render, one list per render.
\<close>

fun renderAll ::
  "(string \<Rightarrow> string) \<Rightarrow> string option \<Rightarrow> accountViewProps list \<Rightarrow> viewInstance
     \<Rightarrow> jsError + effect list list" where
  "renderAll t base [] inst = Inr []"
| "renderAll t base (p # ps) inst =
     bindE (renderPass t base p inst) (\<lambda>(v, inst', evs).
     bindE (renderAll t base ps inst') (\<lambda>rest. Inr (evs # rest)))"

text \<open>The number of places where a list of booleans goes from true to false.\<close>

definition fallingEdges :: "bool list \<Rightarrow> nat" where
  "fallingEdges xs = length (filter (\<lambda>i. xs ! i \<and> \<not> xs ! Suc i) [0 ..< length xs - 1])"

subsection \<open>Auxiliary notions for the proofs\<close>

text \<open>
  The effects expected of a run of renders, given the value observed before the first
  of them: one list per render, holding the logout event exactly where the value falls.
\<close>

fun edgeTrace :: "bool \<Rightarrow> bool list \<Rightarrow> effect list list" where
  "edgeTrace prev [] = []"
| "edgeTrace prev (x # xs) =
     (if prev \<and> \<not> x then [Capture ACCOUNT_LOGOUT_SUCCESS] else []) # edgeTrace x xs"

text \<open>
  The states an instance can be in: before the first commit the cell holds false, and
  afterwards it holds the value the effect last ran with.
\<close>

definition tracking :: "viewInstance \<Rightarrow> bool" where
  "tracking inst =
     (case effectDeps inst of None \<Rightarrow> \<not> wasAuthenticatedRef inst
      | Some b \<Rightarrow> wasAuthenticatedRef inst = b)"

section \<open>Rendering returns a tree\<close>

lemma getProp_Some: "getProp (Some u) f = Inr (f u)"
  by (simp add: getProp_def)

lemma bindE_Inr: "bindE (Inr x) f = f x"
  by (simp add: bindE_def)

lemma renderName_present: "\<exists>h. renderName (Some u) = Inr h"
  by (cases "truthy (name u)") (simp_all add: renderName_def getProp_Some bindE_Inr)

lemma renderOrganization_present: "\<exists>org. renderOrganization (Some u) = Inr org"
  by (cases "truthy (organizationName u)"; cases "truthy (organizationImageUrl u)")
    (simp_all add: renderOrganization_def optProp_def getProp_Some bindE_Inr)

lemma renderAvatar_present: "\<exists>a. renderAvatar t (Some u) = Inr a"
  by (simp add: renderAvatar_def getProp_Some bindE_Inr)

lemma renderProfile_present: "\<exists>b. renderProfile t (Some u) = Inr b"
proof -
  obtain a where "renderAvatar t (Some u) = Inr a"
    using renderAvatar_present by blast
  moreover obtain h where "renderName (Some u) = Inr h"
    using renderName_present by blast
  moreover obtain org where "renderOrganization (Some u) = Inr org"
    using renderOrganization_present by blast
  ultimately show ?thesis
    by (simp add: renderProfile_def bindE_Inr)
qed

text \<open>
  The guard \<^verbatim>\<open>userInfo && ...\<close> is what keeps the unguarded property reads of the
  profile block away from null: without it they throw.
\<close>

lemma renderProfile_null: "renderProfile t None = Inl TypeError"
  by (simp add: renderProfile_def renderAvatar_def renderName_def optProp_def truthy_def
      getProp_def bindE_def)

lemma render_returns: "\<exists>v. render t base p = Inr v"
proof (cases "userInfo p")
  case None
  then show ?thesis by (simp add: render_def bindE_Inr)
next
  case (Some u)
  obtain b where "renderProfile t (Some u) = Inr b"
    using renderProfile_present by blast
  with Some show ?thesis by (simp add: render_def bindE_Inr)
qed

lemma render_mode:
  assumes "render t base p = Inr v"
  shows "modeOf (body v) = (if isAuthenticated p then SignedIn else SignedOut)"
proof (cases "isAuthenticated p")
  case False
  with assms show ?thesis by (auto simp: render_def bindE_Inr)
next
  case True
  show ?thesis
  proof (cases "userInfo p")
    case None
    with True assms show ?thesis by (auto simp: render_def bindE_Inr)
  next
    case (Some u)
    obtain b where "renderProfile t (Some u) = Inr b"
      using renderProfile_present by blast
    with Some True assms show ?thesis by (auto simp: render_def bindE_Inr)
  qed
qed

lemma renderPass_render:
  assumes "render t base p = Inr v"
  shows "renderPass t base p inst = Inr (v, useEffectAuth (isAuthenticated p) inst)"
  using assms by (simp add: renderPass_def bindE_Inr split: prod.splits)

section \<open>The tracker over a run of renders\<close>

lemma useEffectAuth_tracking:
  assumes "tracking inst"
  shows "useEffectAuth b inst =
           (\<lparr>wasAuthenticatedRef = b, effectDeps = Some b\<rparr>,
            if wasAuthenticatedRef inst \<and> \<not> b then [Capture ACCOUNT_LOGOUT_SUCCESS] else [])"
  using assms
  by (cases inst) (auto simp: useEffectAuth_def authEffect_def tracking_def split: option.splits)

text \<open>
  Skipping the callback when the dependency is unchanged loses nothing: run again with
  the value it last saw, the callback leaves the cell alone and captures no event.
\<close>

lemma authEffect_unchanged: "authEffect b b = (b, [])"
  by (simp add: authEffect_def)

lemma tracking_after: "tracking \<lparr>wasAuthenticatedRef = b, effectDeps = Some b\<rparr>"
  by (simp add: tracking_def)

lemma tracking_mount: "tracking mountInstance"
  by (simp add: tracking_def mountInstance_def)

lemma renderPass_tracking:
  assumes "tracking inst"
  shows "\<exists>v. renderPass t base p inst =
           Inr (v, \<lparr>wasAuthenticatedRef = isAuthenticated p,
                    effectDeps = Some (isAuthenticated p)\<rparr>,
                if wasAuthenticatedRef inst \<and> \<not> isAuthenticated p
                then [Capture ACCOUNT_LOGOUT_SUCCESS] else [])"
proof -
  obtain v where "render t base p = Inr v"
    using render_returns by blast
  then show ?thesis
    by (simp add: renderPass_def bindE_Inr useEffectAuth_tracking [OF assms])
qed

lemma renderAll_edgeTrace:
  "tracking inst \<Longrightarrow>
   renderAll t base ps inst = Inr (edgeTrace (wasAuthenticatedRef inst) (map isAuthenticated ps))"
proof (induction ps arbitrary: inst)
  case Nil
  show ?case by simp
next
  case (Cons p ps)
  let ?inst' = "\<lparr>wasAuthenticatedRef = isAuthenticated p,
                 effectDeps = Some (isAuthenticated p)\<rparr>"
  obtain v where pass: "renderPass t base p inst =
      Inr (v, ?inst', if wasAuthenticatedRef inst \<and> \<not> isAuthenticated p
                      then [Capture ACCOUNT_LOGOUT_SUCCESS] else [])"
    using renderPass_tracking [OF Cons.prems] by blast
  have "renderAll t base ps ?inst' = Inr (edgeTrace (isAuthenticated p) (map isAuthenticated ps))"
    using Cons.IH [OF tracking_after] by simp
  with pass show ?case by (simp add: bindE_Inr)
qed

lemma length_edgeTrace: "length (edgeTrace prev xs) = length xs"
  by (induction xs arbitrary: prev) simp_all

lemma nth_edgeTrace:
  "i < length xs \<Longrightarrow>
   edgeTrace prev xs ! i =
     (if (if i = 0 then prev else xs ! (i - 1)) \<and> \<not> xs ! i
      then [Capture ACCOUNT_LOGOUT_SUCCESS] else [])"
proof (induction xs arbitrary: prev i)
  case Nil
  then show ?case by simp
next
  case (Cons x xs)
  show ?case
  proof (cases i)
    case 0
    then show ?thesis by simp
  next
    case (Suc j)
    with Cons.prems have "j < length xs" by simp
    from Cons.IH [OF this, of x] Suc show ?thesis
      by (cases j) simp_all
  qed
qed

lemma upt_0_Suc_shift: "[0 ..< Suc n] = 0 # map Suc [0 ..< n]"
  by (simp only: map_Suc_upt upt_conv_Cons [of 0 "Suc n", OF zero_less_Suc])

lemma fallingEdges_Cons2:
  "fallingEdges (a # b # xs) = (if a \<and> \<not> b then 1 else 0) + fallingEdges (b # xs)"
proof -
  have "fallingEdges (a # b # xs) =
      length (filter (\<lambda>i. (a # b # xs) ! i \<and> \<not> (b # xs) ! i) (0 # map Suc [0 ..< length xs]))"
    unfolding fallingEdges_def by (simp del: upt_Suc add: upt_0_Suc_shift)
  also have "\<dots> = (if a \<and> \<not> b then 1 else 0)
      + length (filter (\<lambda>i. (b # xs) ! i \<and> \<not> xs ! i) [0 ..< length xs])"
    by (simp add: filter_map comp_def)
  also have "\<dots> = (if a \<and> \<not> b then 1 else 0) + fallingEdges (b # xs)"
    by (simp add: fallingEdges_def)
  finally show ?thesis .
qed

lemma fallingEdges_single: "fallingEdges [a] = 0"
  by (simp add: fallingEdges_def)

lemma fallingEdges_False: "fallingEdges (False # xs) = fallingEdges xs"
proof (cases xs)
  case Nil
  then show ?thesis by (simp add: fallingEdges_def)
next
  case (Cons x ys)
  then show ?thesis by (simp add: fallingEdges_Cons2)
qed

lemma count_edgeTrace:
  "count_list (concat (edgeTrace prev xs)) (Capture ACCOUNT_LOGOUT_SUCCESS) =
     fallingEdges (prev # xs)"
proof (induction xs arbitrary: prev)
  case Nil
  show ?case by (simp add: fallingEdges_single)
next
  case (Cons x xs)
  then show ?case by (simp add: fallingEdges_Cons2)
qed

section \<open>The claims\<close>

text \<open>
  C1. For every sequence of props rendered by one mounted instance, the renders all
  return, and the render at position \<open>i\<close> captures the logout-succeeded event exactly
  when \<open>i\<close> is not the first render and \<^verbatim>\<open>isAuthenticated\<close> was true at render
  \<open>i - 1\<close> and is false at render \<open>i\<close>; every other render captures nothing and no
  render posts a message. So the event is captured once per falling edge, never on a
  rising edge, never on an unchanged value, never on the mount render, and the total
  number of captures is the number of falling edges of the sequence.
\<close>

theorem logout_success_once_per_falling_edge:
  "\<exists>tr. renderAll t base ps mountInstance = Inr tr
     \<and> length tr = length ps
     \<and> (\<forall>i < length ps.
          tr ! i = (if 0 < i \<and> isAuthenticated (ps ! (i - 1)) \<and> \<not> isAuthenticated (ps ! i)
                    then [Capture ACCOUNT_LOGOUT_SUCCESS] else []))
     \<and> count_list (concat tr) (Capture ACCOUNT_LOGOUT_SUCCESS)
         = fallingEdges (map isAuthenticated ps)"
proof -
  let ?xs = "map isAuthenticated ps"
  have run: "renderAll t base ps mountInstance = Inr (edgeTrace False ?xs)"
    using renderAll_edgeTrace [OF tracking_mount] by (simp add: mountInstance_def)
  have len: "length (edgeTrace False ?xs) = length ps"
    by (simp add: length_edgeTrace)
  have each: "\<forall>i < length ps.
      edgeTrace False ?xs ! i =
        (if 0 < i \<and> isAuthenticated (ps ! (i - 1)) \<and> \<not> isAuthenticated (ps ! i)
         then [Capture ACCOUNT_LOGOUT_SUCCESS] else [])"
  proof (intro allI impI)
    fix i assume i: "i < length ps"
    then have "i < length ?xs" by simp
    from nth_edgeTrace [OF this, of False] i
    show "edgeTrace False ?xs ! i =
        (if 0 < i \<and> isAuthenticated (ps ! (i - 1)) \<and> \<not> isAuthenticated (ps ! i)
         then [Capture ACCOUNT_LOGOUT_SUCCESS] else [])"
      by (cases i) simp_all
  qed
  have total: "count_list (concat (edgeTrace False ?xs)) (Capture ACCOUNT_LOGOUT_SUCCESS)
      = fallingEdges ?xs"
    by (simp add: count_edgeTrace fallingEdges_False)
  from run len each total show ?thesis by blast
qed

text \<open>
  The sequence false, true, false, true, false: the third render captures the event, and
  two events are captured in all.
\<close>

theorem logout_success_once_per_falling_edge_witness:
  "(2::nat) < length
      (map (\<lambda>b. \<lparr>userInfo = None, isAuthenticated = b, cloudApiUrl = None\<rparr>)
        [False, True, False, True, False])
   \<and> (\<exists>tr. renderAll (\<lambda>k. k) None
          (map (\<lambda>b. \<lparr>userInfo = None, isAuthenticated = b, cloudApiUrl = None\<rparr>)
            [False, True, False, True, False]) mountInstance = Inr tr
        \<and> length tr = 5
        \<and> tr ! 2 = [Capture ACCOUNT_LOGOUT_SUCCESS]
        \<and> count_list (concat tr) (Capture ACCOUNT_LOGOUT_SUCCESS) = 2)"
proof -
  let ?ps = "map (\<lambda>b. \<lparr>userInfo = None, isAuthenticated = b, cloudApiUrl = None\<rparr>)
        [False, True, False, True, False]"
  obtain tr where tr: "renderAll (\<lambda>k. k) None ?ps mountInstance = Inr tr"
    and len: "length tr = length ?ps"
    and each: "\<forall>i < length ?ps.
          tr ! i = (if 0 < i \<and> isAuthenticated (?ps ! (i - 1)) \<and> \<not> isAuthenticated (?ps ! i)
                    then [Capture ACCOUNT_LOGOUT_SUCCESS] else [])"
    and cnt: "count_list (concat tr) (Capture ACCOUNT_LOGOUT_SUCCESS)
         = fallingEdges (map isAuthenticated ?ps)"
    using logout_success_once_per_falling_edge [of "\<lambda>k. k" None ?ps] by blast
  have two: "(2::nat) < length ?ps" by simp
  have "tr ! 2 = [Capture ACCOUNT_LOGOUT_SUCCESS]"
    using each two by simp
  moreover have "fallingEdges (map isAuthenticated ?ps) = 2"
    by (simp add: fallingEdges_Cons2 fallingEdges_single)
  ultimately show ?thesis using tr len cnt two by simp
qed

text \<open>
  C2. The connect handler captures the connect-clicked event and then posts the message
  of type \<^verbatim>\<open>rooCloudSignIn\<close>, and does nothing else: one event, one message, in
  that order, whatever the props of the render (so whatever \<^verbatim>\<open>isAuthenticated\<close>)
  and whatever the instance state.
\<close>

theorem connect_click_effects:
  "handleConnectClick =
     [Capture ACCOUNT_CONNECT_CLICKED, PostMessage \<lparr>msgType = ''rooCloudSignIn'', url = None\<rparr>]
   \<and> snd (click HandleConnectClick p inst) =
     [Capture ACCOUNT_CONNECT_CLICKED, PostMessage \<lparr>msgType = ''rooCloudSignIn'', url = None\<rparr>]
   \<and> count_list (snd (click HandleConnectClick p inst)) (Capture ACCOUNT_CONNECT_CLICKED) = 1
   \<and> length (snd (click HandleConnectClick p inst)) = 2"
  by (simp add: handleConnectClick_def)

text \<open>
  C3. The logout handler captures the logout-clicked event and then posts the message of
  type \<^verbatim>\<open>rooCloudSignOut\<close>: the event comes before the message, and the invocation
  produces no other event and no other message.
\<close>

theorem logout_click_effects:
  "handleLogoutClick =
     [Capture ACCOUNT_LOGOUT_CLICKED, PostMessage \<lparr>msgType = ''rooCloudSignOut'', url = None\<rparr>]
   \<and> snd (click HandleLogoutClick p inst) =
     [Capture ACCOUNT_LOGOUT_CLICKED, PostMessage \<lparr>msgType = ''rooCloudSignOut'', url = None\<rparr>]
   \<and> count_list (snd (click HandleLogoutClick p inst)) (Capture ACCOUNT_LOGOUT_CLICKED) = 1
   \<and> length (snd (click HandleLogoutClick p inst)) = 2"
  by (simp add: handleLogoutClick_def)

text \<open>
  C4, as amended. The visit-website handler captures the connect-clicked event (the
  reused one) and then posts one message of type \<^verbatim>\<open>openExternal\<close>. Its url is
  \<^verbatim>\<open>cloudApiUrl\<close> when that prop is provided and is not the empty string, and the
  default \<^verbatim>\<open>https://app.roocode.com\<close> when the prop is unset or is the empty string.
\<close>

theorem visit_website_effects:
  "(\<forall>u. apiUrl = Some u \<and> u \<noteq> '''' \<longrightarrow>
      handleVisitCloudWebsite apiUrl =
        [Capture ACCOUNT_CONNECT_CLICKED,
         PostMessage \<lparr>msgType = ''openExternal'', url = Some u\<rparr>])
   \<and> (apiUrl = None \<or> apiUrl = Some '''' \<longrightarrow>
      handleVisitCloudWebsite apiUrl =
        [Capture ACCOUNT_CONNECT_CLICKED,
         PostMessage \<lparr>msgType = ''openExternal'', url = Some ''https://app.roocode.com''\<rparr>])
   \<and> snd (click HandleVisitCloudWebsite p inst) = handleVisitCloudWebsite (cloudApiUrl p)
   \<and> length (handleVisitCloudWebsite apiUrl) = 2"
  by (auto simp: handleVisitCloudWebsite_def orDefault_def)

text \<open>A custom url is posted as it is; with the prop unset the default is posted.\<close>

theorem visit_website_effects_witness:
  "Some ''https://custom.example.com'' = Some ''https://custom.example.com''
   \<and> ''https://custom.example.com'' \<noteq> ''''
   \<and> handleVisitCloudWebsite (Some ''https://custom.example.com'') =
        [Capture ACCOUNT_CONNECT_CLICKED,
         PostMessage \<lparr>msgType = ''openExternal'', url = Some ''https://custom.example.com''\<rparr>]
   \<and> handleVisitCloudWebsite None =
        [Capture ACCOUNT_CONNECT_CLICKED,
         PostMessage \<lparr>msgType = ''openExternal'', url = Some ''https://app.roocode.com''\<rparr>]"
  using visit_website_effects [of "Some ''https://custom.example.com''"]
    visit_website_effects [of None]
  by simp

text \<open>
  C4 as first stated fails when the prop is provided as the empty string: the posted url
  is then not the prop's value.
\<close>

theorem visit_website_empty_url_counterexample:
  "cloudApiUrl \<lparr>userInfo = None, isAuthenticated = True, cloudApiUrl = Some ''''\<rparr> = Some ''''
   \<and> snd (click HandleVisitCloudWebsite
        \<lparr>userInfo = None, isAuthenticated = True, cloudApiUrl = Some ''''\<rparr> mountInstance)
      \<noteq> [Capture ACCOUNT_CONNECT_CLICKED,
          PostMessage \<lparr>msgType = ''openExternal'', url = Some ''''\<rparr>]"
  by (simp add: handleVisitCloudWebsite_def orDefault_def)

text \<open>
  C5. The render mode is a function of the props alone: rendering always returns a tree,
  its mode is SignedIn when \<^verbatim>\<open>isAuthenticated\<close> is true and SignedOut otherwise, so
  two renders whose \<^verbatim>\<open>isAuthenticated\<close> and \<^verbatim>\<open>userInfo\<close> agree select the same
  mode whatever the translation function, the image base and the other props are;
  exactly one of the two modes is selected; and the tree of a render pass does not depend
  on the instance state.
\<close>

theorem render_mode_deterministic:
  "\<exists>v1 v2. render t1 base1 p1 = Inr v1 \<and> render t2 base2 p2 = Inr v2
     \<and> modeOf (body v1) = (if isAuthenticated p1 then SignedIn else SignedOut)
     \<and> (isAuthenticated p1 = isAuthenticated p2 \<and> userInfo p1 = userInfo p2
          \<longrightarrow> modeOf (body v1) = modeOf (body v2))
     \<and> (modeOf (body v1) = SignedIn) \<noteq> (modeOf (body v1) = SignedOut)
     \<and> (\<exists>s1 e1 s2 e2. renderPass t1 base1 p1 inst1 = Inr (v1, s1, e1)
            \<and> renderPass t1 base1 p1 inst2 = Inr (v1, s2, e2))"
proof -
  obtain v1 where v1: "render t1 base1 p1 = Inr v1"
    using render_returns by blast
  obtain v2 where v2: "render t2 base2 p2 = Inr v2"
    using render_returns by blast
  have m1: "modeOf (body v1) = (if isAuthenticated p1 then SignedIn else SignedOut)"
    using render_mode [OF v1] .
  have m2: "modeOf (body v2) = (if isAuthenticated p2 then SignedIn else SignedOut)"
    using render_mode [OF v2] .
  have same: "isAuthenticated p1 = isAuthenticated p2 \<and> userInfo p1 = userInfo p2
      \<longrightarrow> modeOf (body v1) = modeOf (body v2)"
    using m1 m2 by simp
  have one: "(modeOf (body v1) = SignedIn) \<noteq> (modeOf (body v1) = SignedOut)"
    by (cases "modeOf (body v1)") simp_all
  have pass: "\<exists>s1 e1 s2 e2. renderPass t1 base1 p1 inst1 = Inr (v1, s1, e1)
      \<and> renderPass t1 base1 p1 inst2 = Inr (v1, s2, e2)"
    using renderPass_render [OF v1, of inst1] renderPass_render [OF v1, of inst2]
    by (metis prod.collapse)
  from v1 v2 m1 same one pass show ?thesis by blast
qed

text \<open>
  Two renders that agree on \<^verbatim>\<open>isAuthenticated\<close> and \<^verbatim>\<open>userInfo\<close> and differ in
  everything else are both in mode SignedIn.
\<close>

theorem render_mode_deterministic_witness:
  "isAuthenticated \<lparr>userInfo = None, isAuthenticated = True, cloudApiUrl = None\<rparr>
     = isAuthenticated \<lparr>userInfo = None, isAuthenticated = True, cloudApiUrl = Some ''u''\<rparr>
   \<and> userInfo \<lparr>userInfo = None, isAuthenticated = True, cloudApiUrl = None\<rparr>
     = userInfo \<lparr>userInfo = None, isAuthenticated = True, cloudApiUrl = Some ''u''\<rparr>
   \<and> (\<exists>v1 v2.
        render (\<lambda>k. k) None \<lparr>userInfo = None, isAuthenticated = True, cloudApiUrl = None\<rparr>
          = Inr v1
      \<and> render (\<lambda>k. ''x'') (Some ''b'')
          \<lparr>userInfo = None, isAuthenticated = True, cloudApiUrl = Some ''u''\<rparr> = Inr v2
      \<and> modeOf (body v1) = SignedIn \<and> modeOf (body v2) = SignedIn)"
  using render_mode_deterministic
    [of "\<lambda>k. k" None "\<lparr>userInfo = None, isAuthenticated = True, cloudApiUrl = None\<rparr>"
        "\<lambda>k. ''x''" "Some ''b''"
        "\<lparr>userInfo = None, isAuthenticated = True, cloudApiUrl = Some ''u''\<rparr>"
        mountInstance mountInstance]
  by auto

text \<open>
  C6. A render with \<^verbatim>\<open>isAuthenticated\<close> true and \<^verbatim>\<open>userInfo\<close> null does not throw:
  it returns the tree whose body is the authenticated one with no profile block and with
  the two action buttons, visit-website and log-out.
\<close>

theorem render_without_userInfo:
  "isAuthenticated p \<Longrightarrow> userInfo p = None \<Longrightarrow>
   render t base p =
     Inr \<lparr>heading = t ''account:title'',
          doneButton = \<lparr>appearance = ''primary'', onClick = OnDone,
                        label = t ''settings:common.done''\<rparr>,
          body = AuthenticatedBody None
            [\<lparr>appearance = ''secondary'', onClick = HandleVisitCloudWebsite,
              label = t ''account:visitCloudWebsite''\<rparr>,
             \<lparr>appearance = ''secondary'', onClick = HandleLogoutClick,
              label = t ''account:logOut''\<rparr>]\<rparr>"
  by (simp add: render_def bindE_Inr)

theorem render_without_userInfo_witness:
  "isAuthenticated \<lparr>userInfo = None, isAuthenticated = True, cloudApiUrl = None\<rparr>
   \<and> userInfo \<lparr>userInfo = None, isAuthenticated = True, cloudApiUrl = None\<rparr> = None
   \<and> map_sum id (\<lambda>v. (profileOf (body v), map onClick (buttonsOf (body v))))
       (render (\<lambda>k. k) None \<lparr>userInfo = None, isAuthenticated = True, cloudApiUrl = None\<rparr>)
     = Inr (None, [HandleVisitCloudWebsite, HandleLogoutClick])"
proof -
  let ?p = "\<lparr>userInfo = None, isAuthenticated = True, cloudApiUrl = None\<rparr>"
  have a: "isAuthenticated ?p" by simp
  have n: "userInfo ?p = None" by simp
  show ?thesis
    using a n render_without_userInfo [OF a n, of "\<lambda>k. k" None] by simp
qed

text \<open>
  C7, as amended. With \<^verbatim>\<open>isAuthenticated\<close> true and \<^verbatim>\<open>userInfo\<close> present without a
  picture, rendering does not throw and the avatar is an initial: the first character of
  the name when the name is present and not empty, otherwise the first character of the
  email when the email is present and not empty, otherwise the glyph \<^verbatim>\<open>?\<close>.
\<close>

theorem avatar_initial_fallback:
  assumes "isAuthenticated p" and "userInfo p = Some u" and "picture u = None"
  shows "\<exists>v b. render t base p = Inr v \<and> profileOf (body v) = Some b
           \<and> profileAvatar b = Initials
               (if name u \<noteq> None \<and> name u \<noteq> Some []
                then take 1 (the (name u))
                else if email u \<noteq> None \<and> email u \<noteq> Some []
                then take 1 (the (email u))
                else ''?'')"
proof -
  have av: "renderAvatar t (Some u) = Inr (Initials
               (if name u \<noteq> None \<and> name u \<noteq> Some []
                then take 1 (the (name u))
                else if email u \<noteq> None \<and> email u \<noteq> Some []
                then take 1 (the (email u))
                else ''?''))"
    using assms(3)
    by (cases "name u"; cases "email u")
      (auto simp: renderAvatar_def optProp_def truthy_def jsOr_def orDefault_def charAt0_def
        take_Suc split: list.splits)
  obtain h where h: "renderName (Some u) = Inr h"
    using renderName_present by blast
  obtain org where org: "renderOrganization (Some u) = Inr org"
    using renderOrganization_present by blast
  from av h org assms(1,2) show ?thesis
    by (simp add: render_def renderProfile_def bindE_Inr)
qed

text \<open>A user with only the email \<^verbatim>\<open>a@b.com\<close> gets the letter a.\<close>

theorem avatar_initial_fallback_witness:
  "isAuthenticated
     \<lparr>userInfo = Some \<lparr>name = None, email = Some ''a@b.com'', picture = None,
                       organizationName = None, organizationImageUrl = None\<rparr>,
      isAuthenticated = True, cloudApiUrl = None\<rparr>
   \<and> picture \<lparr>name = None, email = Some ''a@b.com'', picture = None,
              organizationName = None, organizationImageUrl = None\<rparr> = None
   \<and> (\<exists>v b. render (\<lambda>k. k) None
          \<lparr>userInfo = Some \<lparr>name = None, email = Some ''a@b.com'', picture = None,
                            organizationName = None, organizationImageUrl = None\<rparr>,
           isAuthenticated = True, cloudApiUrl = None\<rparr> = Inr v
        \<and> profileOf (body v) = Some b \<and> profileAvatar b = Initials ''a'')"
proof -
  let ?u = "\<lparr>name = None, email = Some ''a@b.com'', picture = None,
             organizationName = None, organizationImageUrl = None\<rparr>"
  let ?p = "\<lparr>userInfo = Some ?u, isAuthenticated = True, cloudApiUrl = None\<rparr>"
  have a: "isAuthenticated ?p" by simp
  have u: "userInfo ?p = Some ?u" by simp
  have n: "picture ?u = None" by simp
  show ?thesis
    using a n avatar_initial_fallback [OF a u n, of "\<lambda>k. k" None] by simp
qed

text \<open>
  C7 as first stated fails when the name is present as the empty string: the avatar then
  shows the first character of the email, which is not taken from the name.
\<close>

theorem avatar_initial_empty_name_counterexample:
  "name \<lparr>name = Some '''', email = Some ''a@b.com'', picture = None,
         organizationName = None, organizationImageUrl = None\<rparr> = Some ''''
   \<and> render (\<lambda>k. k) None
       \<lparr>userInfo = Some \<lparr>name = Some '''', email = Some ''a@b.com'', picture = None,
                         organizationName = None, organizationImageUrl = None\<rparr>,
        isAuthenticated = True, cloudApiUrl = None\<rparr>
     = Inr \<lparr>heading = ''account:title'',
            doneButton = \<lparr>appearance = ''primary'', onClick = OnDone,
                          label = ''settings:common.done''\<rparr>,
            body = AuthenticatedBody
              (Some \<lparr>profileAvatar = Initials ''a'', nameHeading = None,
                     emailLine = Some ''a@b.com'', organization = None\<rparr>)
              [\<lparr>appearance = ''secondary'', onClick = HandleVisitCloudWebsite,
                label = ''account:visitCloudWebsite''\<rparr>,
               \<lparr>appearance = ''secondary'', onClick = HandleLogoutClick,
                label = ''account:logOut''\<rparr>]\<rparr>
   \<and> Initials ''a'' \<noteq> Initials (take 1 '''')"
  by (simp add: render_def renderProfile_def renderAvatar_def renderName_def renderEmail_def
      renderOrganization_def getProp_def optProp_def truthy_def jsOr_def orDefault_def
      charAt0_def jsText_def bindE_def)

text \<open>
  C8. The cell \<^verbatim>\<open>wasAuthenticated\<close> holds false when the instance is created. No
  click handler (connect, disconnect, visit-website, done) changes the instance state. A
  render pass changes the state only through the tracker effect: the state and events
  after the pass are those of the effect, and when the effect is skipped the state is
  unchanged.
\<close>

theorem wasAuthenticated_written_only_by_effect:
  "wasAuthenticatedRef mountInstance = False
   \<and> fst (click h p inst) = inst
   \<and> (\<exists>v. render t base p = Inr v
          \<and> renderPass t base p inst = Inr (v, useEffectAuth (isAuthenticated p) inst))
   \<and> (effectDeps inst = Some (isAuthenticated p)
        \<longrightarrow> (\<exists>v. renderPass t base p inst = Inr (v, inst, [])))"
proof -
  obtain v where v: "render t base p = Inr v"
    using render_returns by blast
  have pass: "renderPass t base p inst = Inr (v, useEffectAuth (isAuthenticated p) inst)"
    using renderPass_render [OF v] .
  have skip: "effectDeps inst = Some (isAuthenticated p)
      \<longrightarrow> (\<exists>v. renderPass t base p inst = Inr (v, inst, []))"
    using pass by (simp add: useEffectAuth_def)
  have "fst (click h p inst) = inst"
    by (cases h) simp_all
  with v pass skip show ?thesis
    by (auto simp: mountInstance_def)
qed

theorem wasAuthenticated_written_only_by_effect_witness:
  "effectDeps \<lparr>wasAuthenticatedRef = True, effectDeps = Some True\<rparr>
     = Some (isAuthenticated \<lparr>userInfo = None, isAuthenticated = True, cloudApiUrl = None\<rparr>)
   \<and> (\<exists>v. renderPass (\<lambda>k. k) None
         \<lparr>userInfo = None, isAuthenticated = True, cloudApiUrl = None\<rparr>
         \<lparr>wasAuthenticatedRef = True, effectDeps = Some True\<rparr>
       = Inr (v, \<lparr>wasAuthenticatedRef = True, effectDeps = Some True\<rparr>, []))"
  using wasAuthenticated_written_only_by_effect
    [of HandleConnectClick "\<lparr>userInfo = None, isAuthenticated = True, cloudApiUrl = None\<rparr>"
        "\<lparr>wasAuthenticatedRef = True, effectDeps = Some True\<rparr>" "\<lambda>k. k" None]
  by simp

text \<open>
  C9. After the tracker effect has run, the cell equals the value of
  \<^verbatim>\<open>isAuthenticated\<close> it observed: true after observing true; false, with the logout
  event captured, after observing false with the cell true; and unchanged, that is still
  false, after observing false with the cell false.
\<close>

theorem tracker_cell_equals_observed:
  "fst (authEffect isAuth wasAuth) = isAuth
   \<and> (isAuth \<longrightarrow> authEffect isAuth wasAuth = (True, []))
   \<and> (\<not> isAuth \<and> wasAuth \<longrightarrow> authEffect isAuth wasAuth = (False, [Capture ACCOUNT_LOGOUT_SUCCESS]))
   \<and> (\<not> isAuth \<and> \<not> wasAuth \<longrightarrow> authEffect isAuth wasAuth = (wasAuth, []))
   \<and> (effectDeps inst \<noteq> Some isAuth \<longrightarrow>
        wasAuthenticatedRef (fst (useEffectAuth isAuth inst)) = isAuth)"
  by (simp add: authEffect_def useEffectAuth_def split: prod.splits)

theorem tracker_cell_equals_observed_witness:
  "\<not> False \<and> True
   \<and> effectDeps \<lparr>wasAuthenticatedRef = True, effectDeps = Some True\<rparr> \<noteq> Some False
   \<and> authEffect False True = (False, [Capture ACCOUNT_LOGOUT_SUCCESS])
   \<and> wasAuthenticatedRef
        (fst (useEffectAuth False \<lparr>wasAuthenticatedRef = True, effectDeps = Some True\<rparr>)) = False"
  using tracker_cell_equals_observed
    [of False True "\<lparr>wasAuthenticatedRef = True, effectDeps = Some True\<rparr>"]
  by simp

text \<open>
  C10. Invoked with \<^verbatim>\<open>cloudApiUrl\<close> equal to the empty string, the visit-website
  handler posts the default url \<^verbatim>\<open>https://app.roocode.com\<close> and not the empty string:
  every falsy \<^verbatim>\<open>cloudApiUrl\<close>, the empty string as well as undefined, is treated as
  absent.
\<close>

theorem visit_website_empty_string_default:
  "handleVisitCloudWebsite (Some '''') =
     [Capture ACCOUNT_CONNECT_CLICKED,
      PostMessage \<lparr>msgType = ''openExternal'', url = Some ''https://app.roocode.com''\<rparr>]
   \<and> handleVisitCloudWebsite (Some '''') = handleVisitCloudWebsite None
   \<and> (\<not> truthy apiUrl \<longrightarrow> handleVisitCloudWebsite apiUrl = handleVisitCloudWebsite None)"
  by (auto simp: handleVisitCloudWebsite_def orDefault_def truthy_def split: option.splits)

theorem visit_website_empty_string_default_witness:
  "\<not> truthy (Some '''')
   \<and> handleVisitCloudWebsite (Some '''') = handleVisitCloudWebsite None"
  using visit_website_empty_string_default [of "Some ''''"]
  by (auto simp: truthy_def)

end
